theory Spec2Isabelle
  imports Complex_Main
begin

section \<open>SouzaFrameTransf: a corotational frame transformation\<close>

text \<open>
  A shallow embedding of \<^verbatim>\<open>SRC/coordTransformation/Frame/SouzaFrameTransf.tpp\<close>.
  The class is a template over the number of nodes \<open>nn\<close> and the degrees of freedom per
  node \<open>ndf\<close>; its members use two nodes and a 12 by 12 tangent, so the instance modelled
  is \<open>nn = 2\<close>, \<open>ndf = 6\<close>.

  A \<^verbatim>\<open>double\<close> is modelled as a real number: every property below is a property of the
  control flow and of the data flow in exact arithmetic, and none speaks about rounding.
  A fixed-size array of doubles (\<^verbatim>\<open>Vector3D\<close>, \<^verbatim>\<open>VectorND<12>\<close>, \<^verbatim>\<open>Matrix3D\<close>,
  \<^verbatim>\<open>MatrixND<12,12>\<close>) is its index function; the source only ever indexes inside the
  array.
\<close>

subsection \<open>Data\<close>

type_synonym vec = "nat \<Rightarrow> real"
type_synonym mat = "nat \<Rightarrow> nat \<Rightarrow> real"

definition nn :: nat where
  "nn = 2"

definition ndf :: nat where
  "ndf = 6"

definition zero_vec :: vec where
  \<comment> \<open>the result of \<^verbatim>\<open>zero()\<close>, and of value initialisation \<^verbatim>\<open>{}\<close>\<close>
  "zero_vec = (\<lambda>k. 0)"

definition vsub :: "vec \<Rightarrow> vec \<Rightarrow> vec" where
  \<comment> \<open>\<^verbatim>\<open>a - b\<close> and \<^verbatim>\<open>a -= b\<close>, component by component\<close>
  "vsub a b = (\<lambda>k. a k - b k)"

definition dot3 :: "vec \<Rightarrow> vec \<Rightarrow> real" where
  \<comment> \<open>\<^verbatim>\<open>Vector3D::dot\<close>\<close>
  "dot3 a b = (\<Sum>k\<leftarrow>[0..<3]. a k * b k)"

text \<open>
  A node of the framework, as this file reads it: \<^verbatim>\<open>getCrds()\<close>, \<^verbatim>\<open>getDisp()\<close>,
  \<^verbatim>\<open>getTrialDisp()\<close> and \<^verbatim>\<open>getCrdsSensitivity()\<close>. Nodes are owned by the framework and
  change between calls, so the transformation keeps pointers (\<open>None\<close> is \<^verbatim>\<open>nullptr\<close>) and
  every operation reads the nodes through the memory it is given.
\<close>

record node =
  Crds :: vec
  Disp :: vec
  TrialDisp :: vec
  CrdsSensitivity :: int

type_synonym node_ptr = "nat option"
type_synonym node_mem = "nat \<Rightarrow> node"

text \<open>
  The collaborators whose code is outside this file, taken as parameters: the norm of
  \<^verbatim>\<open>Vector3D.h\<close>, the rotation algebra of \<^verbatim>\<open>GroupSO3.h\<close> over a type \<open>'q\<close> of versors,
  the transpose product \<^verbatim>\<open>A^B\<close> of \<^verbatim>\<open>Matrix3D.h\<close>, \<^verbatim>\<open>FrameTransform::Orient\<close>, the
  isometry held in \<^verbatim>\<open>crs\<close>, of \<^verbatim>\<open>Isometry/CrisfieldIsometry.h\<close> over a type \<open>'c\<close> of its states, and
  the four offsets into the local vector that the enumeration of \<^verbatim>\<open>SouzaFrameTransf.h\<close>
  names. Every theorem holds for all of them, unless it states what it asks of them.
\<close>

record ('q, 'c) collaborators =
  norm3 :: "vec \<Rightarrow> real"
  from_matrix :: "mat \<Rightarrow> 'q"
  from_vector :: "vec \<Rightarrow> 'q"
  hamilton :: "'q \<Rightarrow> 'q \<Rightarrow> 'q"
  MatrixFromVersor :: "'q \<Rightarrow> mat"
  LogC90 :: "mat \<Rightarrow> vec"
  tmult :: "mat \<Rightarrow> mat \<Rightarrow> mat"
  Orient :: "vec \<Rightarrow> vec \<Rightarrow> mat \<Rightarrow> int \<times> mat"
  isometry_new :: "vec \<Rightarrow> 'c"
  isometry_initialize :: "'c \<Rightarrow> node list \<Rightarrow> 'c"
  isometry_update :: "'c \<Rightarrow> mat \<Rightarrow> mat \<Rightarrow> vec \<Rightarrow> node list \<Rightarrow> 'c"
  isometry_getRotation :: "'c \<Rightarrow> mat"
  isometry_compute_tangent :: "'c \<Rightarrow> vec \<Rightarrow> mat"
  inx :: nat
  imx :: nat
  jnx :: nat
  jmx :: nat

text \<open>The members of the class, under their names.\<close>

record ('q, 'c) SouzaFrameTransf =
  tag :: int
  nodes :: "nat \<Rightarrow> node_ptr"
  vz :: vec
  offsets :: "(nat \<Rightarrow> vec) option"
  xAxis :: vec
  dX :: vec
  L :: real
  Ln :: real
  R0 :: mat
  Q_past :: "nat \<Rightarrow> 'q"
  Q_pres :: "nat \<Rightarrow> 'q"
  alphaI :: vec
  alphaJ :: vec
  ul :: vec
  ulcommit :: vec
  ulpr :: vec
  vr :: "nat \<Rightarrow> vec"
  T :: mat
  nodeIInitialDisp :: "vec option"
  nodeJInitialDisp :: "vec option"
  initialDispChecked :: bool
  crs :: 'c

subsection \<open>commit and update\<close>

definition commit ::
  "('q, 'c) SouzaFrameTransf \<Rightarrow> int \<times> ('q, 'c) SouzaFrameTransf" where
  "commit s =
     (let s1 = s\<lparr>ulcommit := ul s\<rparr>;
          s2 = s1\<lparr>Q_past := (Q_past s1)(0 := Q_pres s1 0)\<rparr>;
          s3 = s2\<lparr>Q_past := (Q_past s2)(1 := Q_pres s2 1)\<rparr>
      in (0, s3))"

definition relative_translation :: "vec \<Rightarrow> vec \<Rightarrow> vec \<Rightarrow> vec" where
  \<comment> \<open>\<^verbatim>\<open>dx = dX; for (k < 3) dx[k] += dispJ(k) - dispI(k);\<close>\<close>
  "relative_translation dX0 dispI dispJ =
     fold (\<lambda>k dx. dx(k := dx k + (dispJ k - dispI k))) [0..<3] dX0"

definition rotation_increments ::
  "vec \<Rightarrow> vec \<Rightarrow> vec \<Rightarrow> vec \<Rightarrow> vec \<times> vec \<times> vec \<times> vec" where
  \<comment> \<open>the loop of step 1.2: \<open>(dAlphaI, alphaI, dAlphaJ, alphaJ)\<close> after it; the two
      increments are local \<^verbatim>\<open>Vector3D\<close>s whose three components the loop assigns\<close>
  "rotation_increments dispI dispJ aI aJ =
     fold (\<lambda>k (dAlphaI, alphaI', dAlphaJ, alphaJ').
             (dAlphaI(k := dispI (k + 3) - alphaI' k),
              alphaI'(k := dispI (k + 3)),
              dAlphaJ(k := dispJ (k + 3) - alphaJ' k),
              alphaJ'(k := dispJ (k + 3))))
          [0..<3] (zero_vec, aI, zero_vec, aJ)"

definition trial_minus_last_seen :: "vec \<Rightarrow> vec \<Rightarrow> vec" where
  \<comment> \<open>the rotation increment in words: the three rotational components of a trial
      displacement minus the values in \<open>alphaI\<close> or \<open>alphaJ\<close>; \<open>rotation_increments_eq\<close>
      shows that the loop computes it\<close>
  "trial_minus_last_seen disp alpha =
     zero_vec(0 := disp 3 - alpha 0, 1 := disp 4 - alpha 1, 2 := disp 5 - alpha 2)"

definition update_at ::
  "('q, 'c) collaborators \<Rightarrow> node \<Rightarrow> node \<Rightarrow> ('q, 'c) SouzaFrameTransf
     \<Rightarrow> int \<times> ('q, 'c) SouzaFrameTransf" where
  \<comment> \<open>the body of \<^verbatim>\<open>update()\<close>, with \<^verbatim>\<open>*nodes[0]\<close> and \<^verbatim>\<open>*nodes[nn-1]\<close> read\<close>
  "update_at K nI nJ s =
     (let dispI = TrialDisp nI;
          dispJ = TrialDisp nJ;
          dx = relative_translation (dX s) dispI dispJ;
          s1 = s\<lparr>Ln := norm3 K dx\<rparr>
      in if Ln s1 = 0 then (- 2, s1)
         else
           (let (dAlphaI, aI, dAlphaJ, aJ) =
                  rotation_increments dispI dispJ (alphaI s1) (alphaJ s1);
                s2 = s1\<lparr>alphaI := aI, alphaJ := aJ\<rparr>;
                s3 = (if norm3 K dAlphaI \<noteq> 0
                      then s2\<lparr>Q_pres := (Q_pres s2)
                             (0 := hamilton K (from_vector K dAlphaI) (Q_pres s2 0))\<rparr>
                      else s2);
                s4 = (if norm3 K dAlphaJ \<noteq> 0
                      then s3\<lparr>Q_pres := (Q_pres s3)
                             (1 := hamilton K (from_vector K dAlphaJ) (Q_pres s3 1))\<rparr>
                      else s3);
                s5 = s4\<lparr>crs := isometry_update K (crs s4)
                             (MatrixFromVersor K (Q_pres s4 0))
                             (MatrixFromVersor K (Q_pres s4 1)) dx [nI, nJ]\<rparr>;
                s6 = s5\<lparr>ulpr := ul s5\<rparr>;
                e = isometry_getRotation K (crs s6);
                s7 = s6\<lparr>vr := (vr s6)
                        (0 := LogC90 K (tmult K e (MatrixFromVersor K (Q_pres s6 0))))\<rparr>;
                s8 = s7\<lparr>ul := fold (\<lambda>i u. u(imx K + i := vr s7 0 i)) [0..<3] (ul s7)\<rparr>;
                s9 = s8\<lparr>vr := (vr s8)
                        (1 := LogC90 K (tmult K e (MatrixFromVersor K (Q_pres s8 1))))\<rparr>;
                s10 = s9\<lparr>ul := fold (\<lambda>i u. u(jmx K + i := vr s9 1 i)) [0..<3] (ul s9)\<rparr>;
                s11 = s10\<lparr>ul := (ul s10)(inx K := 0)\<rparr>;
                s12 = s11\<lparr>ul := (ul s11)(jnx K := Ln s11 - L s11)\<rparr>;
                s13 = s12\<lparr>T := isometry_compute_tangent K (crs s12) (ul s12)\<rparr>
            in (0, s13)))"

definition local_deformation ::
  "('q, 'c) collaborators \<Rightarrow> mat \<Rightarrow> (nat \<Rightarrow> 'q) \<Rightarrow> real \<Rightarrow> vec \<Rightarrow> vec" where
  \<comment> \<open>step 3 of \<^verbatim>\<open>update()\<close> as one function of the mean triad \<open>e\<close>, the versors, the
      axial value and the local vector before it; \<open>update_at_ul\<close> shows that the update
      writes it\<close>
  "local_deformation K e Q d u =
     ((fold (\<lambda>i u. u(jmx K + i := LogC90 K (tmult K e (MatrixFromVersor K (Q 1))) i)) [0..<3]
        (fold (\<lambda>i u. u(imx K + i := LogC90 K (tmult K e (MatrixFromVersor K (Q 0))) i)) [0..<3]
           u))
      (inx K := 0))(jnx K := d)"

definition update ::
  "('q, 'c) collaborators \<Rightarrow> node_mem \<Rightarrow> ('q, 'c) SouzaFrameTransf
     \<Rightarrow> (int \<times> ('q, 'c) SouzaFrameTransf) option" where
  \<comment> \<open>\<^verbatim>\<open>update()\<close>; \<open>None\<close> is the undefined behaviour of reading through a null node\<close>
  "update K mem s =
     (case nodes s 0 of
        None \<Rightarrow> None
      | Some pI \<Rightarrow>
          (case nodes s (nn - 1) of
             None \<Rightarrow> None
           | Some pJ \<Rightarrow> Some (update_at K (mem pI) (mem pJ) s)))"

subsection \<open>Construction and copy\<close>

definition SouzaFrameTransf_new ::
  "('q, 'c) collaborators \<Rightarrow> ('q, 'c) SouzaFrameTransf \<Rightarrow> int \<Rightarrow> vec
     \<Rightarrow> (nat \<Rightarrow> vec) option \<Rightarrow> ('q, 'c) SouzaFrameTransf" where
  \<comment> \<open>the constructor; \<open>raw\<close> holds the members it leaves default-initialised
      (\<^verbatim>\<open>nodes\<close>, \<^verbatim>\<open>xAxis\<close>, \<^verbatim>\<open>dX\<close>, \<^verbatim>\<open>R0\<close>, the versors, the local vectors, \<^verbatim>\<open>vr\<close>, \<^verbatim>\<open>T\<close>)\<close>
  "SouzaFrameTransf_new K raw tag0 vz0 offset =
     (let s1 = raw\<lparr>tag := tag0, vz := vz0, offsets := None, L := 0, Ln := 0,
                   nodeIInitialDisp := None, nodeJInitialDisp := None,
                   initialDispChecked := False, crs := isometry_new K vz0\<rparr>;
          s2 = s1\<lparr>alphaI := zero_vec\<rparr>;
          s3 = s2\<lparr>alphaJ := zero_vec\<rparr>
      in (case offset of
            None \<Rightarrow> s3
          | Some a \<Rightarrow> s3\<lparr>offsets := Some a\<rparr>))"

definition getCopy ::
  "('q, 'c) collaborators \<Rightarrow> ('q, 'c) SouzaFrameTransf \<Rightarrow> ('q, 'c) SouzaFrameTransf
     \<Rightarrow> ('q, 'c) SouzaFrameTransf" where
  \<comment> \<open>\<^verbatim>\<open>getCopy() const\<close>: the new object; the original is not written\<close>
  "getCopy K raw s =
     (let c0 = SouzaFrameTransf_new K raw (tag s) (vz s) (offsets s);
          c1 = c0\<lparr>nodes := (nodes c0)(0 := nodes s 0)\<rparr>;
          c2 = c1\<lparr>nodes := (nodes c1)(1 := nodes s 1)\<rparr>;
          c3 = c2\<lparr>xAxis := xAxis s\<rparr>;
          c4 = c3\<lparr>L := L s\<rparr>;
          c5 = c4\<lparr>Ln := Ln s\<rparr>;
          c6 = c5\<lparr>R0 := R0 s\<rparr>;
          c7 = c6\<lparr>Q_pres := (Q_pres c6)(0 := Q_pres s 0)\<rparr>;
          c8 = c7\<lparr>Q_pres := (Q_pres c7)(1 := Q_pres s 1)\<rparr>;
          c9 = c8\<lparr>Q_past := (Q_past c8)(0 := Q_past s 0)\<rparr>;
          c10 = c9\<lparr>Q_past := (Q_past c9)(1 := Q_past s 1)\<rparr>;
          c11 = c10\<lparr>ul := ul s\<rparr>;
          c12 = c11\<lparr>ulcommit := ulcommit s\<rparr>
      in c12)"

subsection \<open>Reverting\<close>

definition revertToStart_reset ::
  "('q, 'c) collaborators \<Rightarrow> ('q, 'c) SouzaFrameTransf \<Rightarrow> ('q, 'c) SouzaFrameTransf" where
  \<comment> \<open>the assignments of \<^verbatim>\<open>revertToStart()\<close> before its call of \<^verbatim>\<open>update()\<close>\<close>
  "revertToStart_reset K s =
     (let s1 = s\<lparr>ul := zero_vec\<rparr>;
          s2 = s1\<lparr>Q_pres := (Q_pres s1)(0 := from_matrix K (R0 s1))\<rparr>;
          s3 = fold (\<lambda>i t. t\<lparr>Q_pres := (Q_pres t)(i := Q_pres t 0)\<rparr>) [1..<nn] s2;
          s4 = s3\<lparr>alphaI := zero_vec\<rparr>;
          s5 = s4\<lparr>alphaJ := zero_vec\<rparr>
      in s5)"

definition revertToStart ::
  "('q, 'c) collaborators \<Rightarrow> node_mem \<Rightarrow> ('q, 'c) SouzaFrameTransf
     \<Rightarrow> (int \<times> ('q, 'c) SouzaFrameTransf) option" where
  \<comment> \<open>\<^verbatim>\<open>this->update(); return 0;\<close> the status of the update is not read\<close>
  "revertToStart K mem s =
     (case update K mem (revertToStart_reset K s) of
        None \<Rightarrow> None
      | Some (rc, s') \<Rightarrow> Some (0, s'))"

definition revertToLastCommit_restore ::
  "node \<Rightarrow> node \<Rightarrow> ('q, 'c) SouzaFrameTransf \<Rightarrow> ('q, 'c) SouzaFrameTransf" where
  \<comment> \<open>the assignments of \<^verbatim>\<open>revertToLastCommit()\<close> before its call of \<^verbatim>\<open>update()\<close>\<close>
  "revertToLastCommit_restore nI nJ s =
     (let dispI = TrialDisp nI;
          dispJ = TrialDisp nJ;
          s1 = fold (\<lambda>k t. t\<lparr>alphaI := (alphaI t)(k := dispI (k + 3)),
                              alphaJ := (alphaJ t)(k := dispJ (k + 3))\<rparr>) [0..<3] s;
          s2 = s1\<lparr>ul := ulcommit s1\<rparr>;
          s3 = s2\<lparr>Q_pres := (Q_pres s2)(0 := Q_past s2 0)\<rparr>;
          s4 = s3\<lparr>Q_pres := (Q_pres s3)(1 := Q_past s3 1)\<rparr>
      in s4)"

definition revertToLastCommit ::
  "('q, 'c) collaborators \<Rightarrow> node_mem \<Rightarrow> ('q, 'c) SouzaFrameTransf
     \<Rightarrow> (int \<times> ('q, 'c) SouzaFrameTransf) option" where
  "revertToLastCommit K mem s =
     (case nodes s 0 of
        None \<Rightarrow> None
      | Some pI \<Rightarrow>
          (case nodes s 1 of
             None \<Rightarrow> None
           | Some pJ \<Rightarrow>
               (case update K mem (revertToLastCommit_restore (mem pI) (mem pJ) s) of
                  None \<Rightarrow> None
                | Some (rc, s') \<Rightarrow> Some (0, s'))))"

subsection \<open>initialize\<close>

fun bind_nodes ::
  "nat list \<Rightarrow> (nat \<Rightarrow> node_ptr) \<Rightarrow> ('q, 'c) SouzaFrameTransf
     \<Rightarrow> bool \<times> ('q, 'c) SouzaFrameTransf" where
  \<comment> \<open>the first loop of \<^verbatim>\<open>initialize\<close>: \<open>False\<close> when it returns at a null pointer\<close>
  "bind_nodes [] new_nodes s = (True, s)"
| "bind_nodes (i # rest) new_nodes s =
     (let s1 = s\<lparr>nodes := (nodes s)(i := new_nodes i)\<rparr>
      in if nodes s1 i = None then (False, s1) else bind_nodes rest new_nodes s1)"

definition copy6 :: "vec \<Rightarrow> vec" where
  \<comment> \<open>\<^verbatim>\<open>new double[6]\<close> filled from the six components of a displacement\<close>
  "copy6 d = fold (\<lambda>j a. a(j := d j)) [0..<6] zero_vec"

fun initial_disp :: "nat list \<Rightarrow> vec \<Rightarrow> vec option \<Rightarrow> vec option" where
  \<comment> \<open>\<^verbatim>\<open>for (i < 6) if (disp[i] != 0.0) { copy; i = 6; }\<close>\<close>
  "initial_disp [] d cur = cur"
| "initial_disp (i # rest) d cur =
     (if d i \<noteq> 0 then Some (copy6 d) else initial_disp rest d cur)"

definition initialize_at ::
  "('q, 'c) collaborators \<Rightarrow> node \<Rightarrow> node \<Rightarrow> ('q, 'c) SouzaFrameTransf
     \<Rightarrow> int \<times> ('q, 'c) SouzaFrameTransf" where
  \<comment> \<open>\<^verbatim>\<open>initialize\<close> after its first loop, with \<^verbatim>\<open>*nodes[0]\<close> and \<^verbatim>\<open>*nodes[nn-1]\<close> read\<close>
  "initialize_at K nI nJ s =
     (let s1 = s\<lparr>crs := isometry_initialize K (crs s) [nI, nJ]\<rparr>;
          s2 = s1\<lparr>dX := Crds nJ\<rparr>;
          s3 = s2\<lparr>dX := vsub (dX s2) (Crds nI)\<rparr>;
          s4 = (if initialDispChecked s3 = False
                then s3\<lparr>nodeIInitialDisp :=
                           initial_disp [0..<6] (Disp nI) (nodeIInitialDisp s3),
                         nodeJInitialDisp :=
                           initial_disp [0..<6] (Disp nJ) (nodeJInitialDisp s3),
                         initialDispChecked := True\<rparr>
                else s3);
          dx = vsub (Crds nJ) (Crds nI);
          s5 = s4\<lparr>L := norm3 K dx\<rparr>
      in if L s5 = 0 then (- 2, s5)
         else
           (let (error, R) = Orient K dx (vz s5) (R0 s5);
                s6 = s5\<lparr>R0 := R\<rparr>
            in if error \<noteq> 0 then (error, s6)
               else
                 (let s7 = s6\<lparr>Q_pres := (Q_pres s6)(1 := from_matrix K (R0 s6))\<rparr>;
                      s8 = s7\<lparr>Q_pres := (Q_pres s7)(0 := Q_pres s7 1)\<rparr>;
                      s9 = s8\<lparr>ul := zero_vec\<rparr>;
                      s10 = s9\<lparr>ulpr := zero_vec\<rparr>;
                      s11 = fold (\<lambda>i t. t\<lparr>vr := (vr t)(i := zero_vec)\<rparr>) [0..<nn] s10;
                      s12 = snd (commit s11)
                  in (0, s12))))"

definition initialize ::
  "('q, 'c) collaborators \<Rightarrow> node_mem \<Rightarrow> (nat \<Rightarrow> node_ptr) \<Rightarrow> ('q, 'c) SouzaFrameTransf
     \<Rightarrow> (int \<times> ('q, 'c) SouzaFrameTransf) option" where
  "initialize K mem new_nodes s =
     (case bind_nodes [0..<nn] new_nodes s of
        (False, s1) \<Rightarrow> Some (- 1, s1)
      | (True, s1) \<Rightarrow>
          (case nodes s1 0 of
             None \<Rightarrow> None
           | Some pI \<Rightarrow>
               (case nodes s1 (nn - 1) of
                  None \<Rightarrow> None
                | Some pJ \<Rightarrow> Some (initialize_at K (mem pI) (mem pJ) s1))))"

subsection \<open>Pushing a local force to the global frame\<close>

definition assemble :: "nat \<Rightarrow> vec \<Rightarrow> real \<Rightarrow> vec \<Rightarrow> vec" where
  \<comment> \<open>Modelled from the spec: \<^verbatim>\<open>VectorND::assemble\<close> is declared in \<^verbatim>\<open>VectorND.h\<close>, which
      is not among the sources; the force is "block-assembled as two 6-DOF groups per
      node", so \<^verbatim>\<open>pg.assemble(a, v, scale)\<close> adds the six components of \<open>v\<close>, scaled, to
      \<open>pg\<close> from offset \<open>a\<close> on.\<close>
  "assemble a v scale pg = fold (\<lambda>j g. g(a + j := g (a + j) + v j * scale)) [0..<6] pg"

definition push_block :: "mat \<Rightarrow> vec \<Rightarrow> nat \<Rightarrow> nat \<Rightarrow> vec" where
  \<comment> \<open>\<^verbatim>\<open>pab\<close> after the loops over \<open>i\<close> and \<open>j\<close>\<close>
  "push_block Tm pa a b =
     fold (\<lambda>i pab. fold (\<lambda>j pab. pab(j := pab j + Tm (a * 6 + i) (b * 6 + j) * pa i))
                      [0..<6] pab)
          [0..<6] zero_vec"

definition push ::
  "('q, 'c) SouzaFrameTransf \<Rightarrow> vec \<Rightarrow> int \<times> vec \<times> ('q, 'c) SouzaFrameTransf" where
  \<comment> \<open>\<^verbatim>\<open>push(VectorND<nn*ndf>& pl, Operation)\<close>: the status, \<open>pl\<close> as the call leaves it,
      and the transformation after the call\<close>
  "push s pl =
     (let pg = fold (\<lambda>a pg.
                 (let pa = zero_vec(0 := pl (a * ndf + 0), 1 := pl (a * ndf + 1),
                                    2 := pl (a * ndf + 2), 3 := pl (a * ndf + 3),
                                    4 := pl (a * ndf + 4), 5 := pl (a * ndf + 5))
                  in fold (\<lambda>b pg. assemble (b * 6) (push_block (T s) pa a b) 1 pg)
                       [0..<2] pg))
               [0..<nn] zero_vec
      in (0, pg, s))"

subsection \<open>Sensitivity\<close>

text \<open>
  Each method returns what it writes to \<^verbatim>\<open>opserr\<close> (one string per call, the line
  terminator left out) and its result. A \<^verbatim>\<open>Vector\<close> of run-time size is a list.

  \<^verbatim>\<open>getLengthGrad()\<close> divides by \<open>L\<close> without a guard. In the source's arithmetic \<^verbatim>\<open>1.0/L\<close>
  at \<open>L = 0\<close> is an infinity, and its product with the dot product is an infinity or not
  a number; the real quotient of HOL would be \<open>0\<close> there. The result type therefore has a
  value for "not a finite number".
\<close>

datatype fp_value = Finite real | NotFinite

definition dummy :: "real list" where
  \<comment> \<open>\<^verbatim>\<open>static Vector dummy(1)\<close>\<close>
  "dummy = [0]"

definition set_sensitivity :: "vec \<Rightarrow> int \<Rightarrow> vec option" where
  \<comment> \<open>\<^verbatim>\<open>if (d != 0) v(d-1) = 1.0;\<close> \<open>None\<close> is a write outside the three components\<close>
  "set_sensitivity v d =
     (if d \<noteq> 0
      then (if 1 \<le> d \<and> d \<le> 3 then Some (v(nat (d - 1) := 1)) else None)
      else Some v)"

definition getLengthGrad ::
  "node_mem \<Rightarrow> ('q, 'c) SouzaFrameTransf \<Rightarrow> (string list \<times> fp_value) option" where
  "getLengthGrad mem s =
     (case nodes s 0 of
        None \<Rightarrow> None
      | Some pI \<Rightarrow>
          (case nodes s 1 of
             None \<Rightarrow> None
           | Some pJ \<Rightarrow>
               (let di = CrdsSensitivity (mem pI);
                    dj = CrdsSensitivity (mem pJ)
                in (case set_sensitivity zero_vec di of
                      None \<Rightarrow> None
                    | Some dxi \<Rightarrow>
                        (case set_sensitivity zero_vec dj of
                           None \<Rightarrow> None
                         | Some dxj \<Rightarrow>
                             Some ([], if L s = 0 then NotFinite
                                       else Finite (1 / L s * dot3 (dX s) (vsub dxj dxi))))))))"

definition getBasicDisplTotalGrad ::
  "('q, 'c) SouzaFrameTransf \<Rightarrow> int \<Rightarrow> string list \<times> real list" where
  "getBasicDisplTotalGrad s gradNumber =
     ([''WARNING CrdTransf::getBasicDisplTotalGrad() - this method  should not be called.''],
      dummy)"

definition getBasicDisplFixedGrad ::
  "('q, 'c) SouzaFrameTransf \<Rightarrow> string list \<times> real list" where
  "getBasicDisplFixedGrad s =
     ([''ERROR CrdTransf::getBasicDisplFixedGrad() - has not been implemented yet for the chosen transformation.''],
      dummy)"

definition getGlobalResistingForceShapeSensitivity ::
  "('q, 'c) SouzaFrameTransf \<Rightarrow> real list \<Rightarrow> real list \<Rightarrow> int \<Rightarrow> string list \<times> real list" where
  "getGlobalResistingForceShapeSensitivity s pb p0 gradNumber =
     ([''ERROR CrdTransf::getGlobalResistingForceSensitivity() - has not been implemented yet for the chosen transformation.''],
      dummy)"

subsection \<open>An instance to run the operations on\<close>

text \<open>
  The theorems below hold for all collaborators. To evaluate the operations at concrete
  inputs, this instance supplies the Euclidean norm, represents a versor by its matrix,
  and uses stand-ins for the rest: first-order ones for the exponential and the
  logarithm, the triad of node I for the isometry, and an \<^verbatim>\<open>Orient\<close> that always
  succeeds with the identity triad (the triad of an element along the first axis). Its
  offsets are those of the comment \<^verbatim>\<open>pl[6*node+3+k]\<close> in \<^verbatim>\<open>addTangent\<close>: moments at 3
  and 9, axial components at 0 and 6.
\<close>

definition euclid_norm3 :: "vec \<Rightarrow> real" where
  "euclid_norm3 v = sqrt ((v 0)\<^sup>2 + (v 1)\<^sup>2 + (v 2)\<^sup>2)"

definition identity_mat :: mat where
  "identity_mat = (\<lambda>i j. if i = j then 1 else 0)"

definition skew :: "vec \<Rightarrow> mat" where
  "skew v = (\<lambda>i j.
     if i = 0 \<and> j = 1 then - v 2 else if i = 0 \<and> j = 2 then v 1
     else if i = 1 \<and> j = 0 then v 2 else if i = 1 \<and> j = 2 then - v 0
     else if i = 2 \<and> j = 0 then - v 1 else if i = 2 \<and> j = 1 then v 0
     else 0)"

definition axial :: "mat \<Rightarrow> vec" where
  "axial R = (\<lambda>k.
     if k = 0 then (R 2 1 - R 1 2) / 2 else if k = 1 then (R 0 2 - R 2 0) / 2
     else if k = 2 then (R 1 0 - R 0 1) / 2 else 0)"

definition mat3_mult :: "mat \<Rightarrow> mat \<Rightarrow> mat" where
  "mat3_mult A B = (\<lambda>i j. A i 0 * B 0 j + A i 1 * B 1 j + A i 2 * B 2 j)"

definition mat3_tmult :: "mat \<Rightarrow> mat \<Rightarrow> mat" where
  "mat3_tmult A B = (\<lambda>i j. A 0 i * B 0 j + A 1 i * B 1 j + A 2 i * B 2 j)"

definition test_collaborators :: "(mat, mat) collaborators" where
  "test_collaborators =
     \<lparr>norm3 = euclid_norm3,
      from_matrix = (\<lambda>R. R),
      from_vector = (\<lambda>v i j. identity_mat i j + skew v i j),
      hamilton = mat3_mult,
      MatrixFromVersor = (\<lambda>q. q),
      LogC90 = axial,
      tmult = mat3_tmult,
      Orient = (\<lambda>dx vz0 R. (0, identity_mat)),
      isometry_new = (\<lambda>vz0. identity_mat),
      isometry_initialize = (\<lambda>c ns. c),
      isometry_update = (\<lambda>c RI RJ dx ns. RI),
      isometry_getRotation = (\<lambda>c. c),
      isometry_compute_tangent = (\<lambda>c u. identity_mat),
      inx = 0, imx = 3, jnx = 6, jmx = 9\<rparr>"

definition test_raw :: "(mat, mat) SouzaFrameTransf" where
  "test_raw =
     \<lparr>tag = 0, nodes = (\<lambda>i. None), vz = zero_vec, offsets = None, xAxis = zero_vec,
      dX = zero_vec, L = 0, Ln = 0, R0 = (\<lambda>i j. 0), Q_past = (\<lambda>i. identity_mat),
      Q_pres = (\<lambda>i. identity_mat), alphaI = zero_vec, alphaJ = zero_vec, ul = zero_vec,
      ulcommit = zero_vec, ulpr = zero_vec, vr = (\<lambda>i. zero_vec), T = (\<lambda>i j. 0),
      nodeIInitialDisp = None, nodeJInitialDisp = None, initialDispChecked = False,
      crs = identity_mat\<rparr>"

definition test_nodes :: "nat \<Rightarrow> node_ptr" where
  "test_nodes = (\<lambda>i. if i < 2 then Some i else None)"

definition test_mem :: node_mem where
  \<comment> \<open>node 0 at the origin, node 1 at \<open>(1, 0, 0)\<close> with a trial rotation of \<open>1/100\<close> about
      the third axis; every other address holds a node at the origin\<close>
  "test_mem = (\<lambda>p.
     \<lparr>Crds = (if p = 1 then zero_vec(0 := 1) else zero_vec),
      Disp = zero_vec,
      TrialDisp = (if p = 1 then zero_vec(5 := 1 / 100) else zero_vec),
      CrdsSensitivity = (if p = 1 then 1 else 0)\<rparr>)"

definition test_transf :: "(mat, mat) SouzaFrameTransf" where
  \<comment> \<open>the transformation between nodes 0 and 1 as \<open>initialize\<close> leaves it\<close>
  "test_transf =
     test_raw\<lparr>tag := 1, nodes := test_nodes, vz := zero_vec(2 := 1), dX := zero_vec(0 := 1),
              L := 1, R0 := identity_mat, initialDispChecked := True\<rparr>"

definition test_collapsed_mem :: node_mem where
  \<comment> \<open>as \<open>test_mem\<close>, with node 1 displaced onto node 0\<close>
  "test_collapsed_mem = (\<lambda>p.
     (test_mem p)\<lparr>TrialDisp := (if p = 1 then zero_vec(0 := - 1) else zero_vec)\<rparr>)"

definition test_stretched_mem :: node_mem where
  \<comment> \<open>as \<open>test_mem\<close>, with node 1 displaced by \<open>1\<close> along the element and not rotated\<close>
  "test_stretched_mem = (\<lambda>p.
     (test_mem p)\<lparr>TrialDisp := (if p = 1 then zero_vec(0 := 1) else zero_vec)\<rparr>)"

definition test_collapsed_rotated_mem :: node_mem where
  \<comment> \<open>node 1 displaced onto node 0 and rotated by \<open>1/4\<close> about the third axis\<close>
  "test_collapsed_rotated_mem = (\<lambda>p.
     (test_mem p)\<lparr>TrialDisp := (if p = 1 then zero_vec(0 := - 1, 5 := 1 / 4) else zero_vec)\<rparr>)"

text \<open>Arguments of \<open>initialize\<close>: a null second pointer, and the same node twice.\<close>

definition test_one_node :: "nat \<Rightarrow> node_ptr" where
  "test_one_node = (\<lambda>i. if i = 0 then Some 0 else None)"

definition test_same_node :: "nat \<Rightarrow> node_ptr" where
  "test_same_node = (\<lambda>i. if i < 2 then Some 0 else None)"

section \<open>Properties\<close>

subsection \<open>The loops in closed form, and what update writes\<close>

lemma upt_0_2: "[0..<2] = [0, 1]" "[1..<2] = [1]"
  by (simp_all add: upt_rec)

lemma upt_0_3: "[0..<3] = [0, 1, 2]"
  by (simp add: upt_rec)

lemma upt_0_6: "[0..<6] = [0, 1, 2, 3, 4, 5]"
  by (simp add: upt_rec)

text \<open>\<open>test_transf\<close> is the freshly constructed object after \<open>initialize\<close>.\<close>

lemma test_initialize:
  "initialize test_collaborators test_mem test_nodes
     (SouzaFrameTransf_new test_collaborators test_raw 1 (zero_vec(2 := 1)) None)
   = Some (0, test_transf)"
  by (simp add: initialize_def upt_0_2 test_nodes_def SouzaFrameTransf_new_def nn_def Let_def
      initialize_at_def test_collaborators_def test_raw_def test_mem_def upt_0_6 commit_def
      test_transf_def vsub_def zero_vec_def euclid_norm3_def fun_eq_iff)

lemma relative_translation_eq:
  "relative_translation d a b =
     d(0 := d 0 + (b 0 - a 0), 1 := d 1 + (b 1 - a 1), 2 := d 2 + (b 2 - a 2))"
  by (simp add: relative_translation_def upt_0_3)

lemma rotation_increments_eq:
  "rotation_increments a b aI aJ =
     (trial_minus_last_seen a aI, aI(0 := a 3, 1 := a 4, 2 := a 5),
      trial_minus_last_seen b aJ, aJ(0 := b 3, 1 := b 4, 2 := b 5))"
  by (simp add: rotation_increments_def trial_minus_last_seen_def upt_0_3)

lemma update_at_status:
  "fst (update_at K nI nJ s) =
     (if norm3 K (relative_translation (dX s) (TrialDisp nI) (TrialDisp nJ)) = 0 then - 2 else 0)"
  by (simp add: update_at_def Let_def split: prod.splits)

lemma update_at_Ln:
  "Ln (snd (update_at K nI nJ s)) =
     norm3 K (relative_translation (dX s) (TrialDisp nI) (TrialDisp nJ))"
  by (simp add: update_at_def Let_def split: prod.splits)

lemma update_at_frame:
  "ulcommit (snd (update_at K nI nJ s)) = ulcommit s"
  "Q_past (snd (update_at K nI nJ s)) = Q_past s"
  "L (snd (update_at K nI nJ s)) = L s"
  "dX (snd (update_at K nI nJ s)) = dX s"
  "nodes (snd (update_at K nI nJ s)) = nodes s"
  "R0 (snd (update_at K nI nJ s)) = R0 s"
  by (simp_all add: update_at_def Let_def split: prod.splits)

lemma update_bound:
  "nodes s 0 = Some pI \<Longrightarrow> nodes s (nn - 1) = Some pJ \<Longrightarrow>
     update K mem s = Some (update_at K (mem pI) (mem pJ) s)"
  by (simp add: update_def)

lemma update_at_Q_pres:
  "Q_pres (snd (update_at K nI nJ s)) =
     (if fst (update_at K nI nJ s) = 0
      then (Q_pres s)
        (0 := (if norm3 K (trial_minus_last_seen (TrialDisp nI) (alphaI s)) \<noteq> 0
               then hamilton K (from_vector K (trial_minus_last_seen (TrialDisp nI) (alphaI s)))
                      (Q_pres s 0)
               else Q_pres s 0),
         1 := (if norm3 K (trial_minus_last_seen (TrialDisp nJ) (alphaJ s)) \<noteq> 0
               then hamilton K (from_vector K (trial_minus_last_seen (TrialDisp nJ) (alphaJ s)))
                      (Q_pres s 1)
               else Q_pres s 1))
      else Q_pres s)"
  by (auto simp add: update_at_def Let_def rotation_increments_eq fun_eq_iff)

lemma update_at_alpha:
  "alphaI (snd (update_at K nI nJ s)) =
     (if fst (update_at K nI nJ s) = 0
      then (alphaI s)(0 := TrialDisp nI 3, 1 := TrialDisp nI 4, 2 := TrialDisp nI 5)
      else alphaI s)"
  "alphaJ (snd (update_at K nI nJ s)) =
     (if fst (update_at K nI nJ s) = 0
      then (alphaJ s)(0 := TrialDisp nJ 3, 1 := TrialDisp nJ 4, 2 := TrialDisp nJ 5)
      else alphaJ s)"
  by (simp_all add: update_at_def Let_def rotation_increments_eq)

lemma update_at_axial:
  assumes "fst (update_at K nI nJ s) = 0" "inx K \<noteq> jnx K"
  shows "ul (snd (update_at K nI nJ s)) (inx K) = 0"
    and "ul (snd (update_at K nI nJ s)) (jnx K) = Ln (snd (update_at K nI nJ s)) - L s"
  using assms by (simp_all add: update_at_def Let_def split: prod.splits if_splits)

subsection \<open>Degenerate geometry in update\<close>

text \<open>
  C3. \<^verbatim>\<open>update()\<close> returns a non-zero status exactly when the deformed length \<open>Ln\<close> it
  has just computed, the norm of the deformed chord, is zero; the status is then \<open>-2\<close>,
  and whether it fails or not the committed state \<open>ulcommit\<close>, \<open>Q_past\<close> is what it was.
\<close>

theorem update_fails_iff_zero_length:
  assumes "nodes s 0 = Some pI" and "nodes s (nn - 1) = Some pJ"
  shows "\<exists>rc s'. update K mem s = Some (rc, s')
           \<and> Ln s' = norm3 K (relative_translation (dX s) (TrialDisp (mem pI)) (TrialDisp (mem pJ)))
           \<and> (rc \<noteq> 0) = (Ln s' = 0) \<and> (rc = 0 \<or> rc = - 2)
           \<and> ulcommit s' = ulcommit s \<and> Q_past s' = Q_past s"
proof -
  let ?r = "update_at K (mem pI) (mem pJ) s"
  have "update K mem s = Some (fst ?r, snd ?r)"
    using assms by (simp add: update_bound)
  moreover have "(fst ?r \<noteq> 0) = (Ln (snd ?r) = 0)" "fst ?r = 0 \<or> fst ?r = - 2"
    by (simp_all add: update_at_status update_at_Ln)
  ultimately show ?thesis
    using update_at_Ln [of K "mem pI" "mem pJ" s] update_at_frame(1,2) [of K "mem pI" "mem pJ" s]
    by blast
qed

text \<open>The instance with node 1 displaced onto node 0: the update fails.\<close>

lemma test_bound: "nodes test_transf 0 = Some 0" "nodes test_transf (nn - 1) = Some 1"
  by (simp_all add: test_transf_def test_nodes_def nn_def)

theorem update_fails_iff_zero_length_witness:
  "nodes test_transf 0 = Some 0 \<and> nodes test_transf (nn - 1) = Some 1
   \<and> (\<exists>s'. update test_collaborators test_collapsed_mem test_transf = Some (- 2, s')
          \<and> Ln s' = 0 \<and> ulcommit s' = ulcommit test_transf \<and> Q_past s' = Q_past test_transf)"
proof -
  have z: "norm3 test_collaborators (relative_translation (dX test_transf)
             (TrialDisp (test_collapsed_mem 0)) (TrialDisp (test_collapsed_mem 1))) = 0"
    by (simp add: relative_translation_eq test_collaborators_def test_transf_def
        test_collapsed_mem_def test_mem_def euclid_norm3_def zero_vec_def test_raw_def)
  show ?thesis
    using update_fails_iff_zero_length [OF test_bound, of test_collaborators test_collapsed_mem]
      z test_bound
    by auto
qed

subsection \<open>The axial components\<close>

text \<open>
  C4. After a successful \<^verbatim>\<open>update()\<close> the local vector holds \<open>0\<close> at \<open>inx\<close> and
  \<open>Ln - L\<close> at \<open>jnx\<close>, where \<open>Ln\<close> is the norm of the deformed chord that this update
  computed from the reference chord and the trial displacements of the two nodes, and
  \<open>L\<close> is the initial length, which the update does not write. The two offsets come
  from the header; they are distinct there.
\<close>

theorem update_axial_components:
  assumes "nodes s 0 = Some pI" and "nodes s (nn - 1) = Some pJ"
    and "update K mem s = Some (0, s')" and "inx K \<noteq> jnx K"
  shows "ul s' (inx K) = 0
       \<and> ul s' (jnx K)
           = norm3 K (relative_translation (dX s) (TrialDisp (mem pI)) (TrialDisp (mem pJ))) - L s
       \<and> Ln s' = norm3 K (relative_translation (dX s) (TrialDisp (mem pI)) (TrialDisp (mem pJ)))
       \<and> L s' = L s"
proof -
  let ?r = "update_at K (mem pI) (mem pJ) s"
  have "update K mem s = Some ?r"
    using assms(1,2) by (rule update_bound)
  with assms(3) have r: "fst ?r = 0" "s' = snd ?r"
    by (simp_all add: prod_eq_iff)
  show ?thesis
    using update_at_axial [OF r(1) assms(4)] update_at_Ln [of K "mem pI" "mem pJ" s]
      update_at_frame(3) [of K "mem pI" "mem pJ" s]
    by (simp add: r(2))
qed

text \<open>
  In the instance with node 1 displaced by \<open>1\<close> along the element the deformed length is
  \<open>2\<close>: the axial slot of node J holds \<open>1\<close>, that of node I holds \<open>0\<close>.
\<close>

lemma test_update_ok: "fst (update_at test_collaborators (test_mem 0) (test_mem 1) test_transf) = 0"
  by (simp add: update_at_status relative_translation_eq test_collaborators_def test_transf_def
        test_mem_def euclid_norm3_def zero_vec_def test_raw_def)

lemma test_stretched_chord:
  "norm3 test_collaborators
     (relative_translation (dX test_transf) (TrialDisp (test_stretched_mem 0))
        (TrialDisp (test_stretched_mem 1))) = 2"
proof -
  have "relative_translation (dX test_transf) (TrialDisp (test_stretched_mem 0))
          (TrialDisp (test_stretched_mem 1)) = zero_vec(0 := 2)"
    by (rule ext)
      (simp add: relative_translation_eq test_transf_def test_stretched_mem_def test_mem_def
        zero_vec_def test_raw_def)
  moreover have "sqrt 4 = 2"
    using real_sqrt_abs [of 2] by simp
  ultimately show ?thesis
    by (simp add: test_collaborators_def euclid_norm3_def zero_vec_def)
qed

theorem update_axial_components_witness:
  "nodes test_transf 0 = Some 0 \<and> nodes test_transf (nn - 1) = Some 1
   \<and> update test_collaborators test_stretched_mem test_transf
       = Some (0, snd (update_at test_collaborators (test_stretched_mem 0) (test_stretched_mem 1)
                        test_transf))
   \<and> inx test_collaborators \<noteq> jnx test_collaborators
   \<and> ul (snd (update_at test_collaborators (test_stretched_mem 0) (test_stretched_mem 1)
              test_transf)) 0 = 0
   \<and> ul (snd (update_at test_collaborators (test_stretched_mem 0) (test_stretched_mem 1)
              test_transf)) 6 = 1
   \<and> Ln (snd (update_at test_collaborators (test_stretched_mem 0) (test_stretched_mem 1)
              test_transf)) = 2
   \<and> L (snd (update_at test_collaborators (test_stretched_mem 0) (test_stretched_mem 1)
             test_transf)) = 1"
proof -
  let ?s = "snd (update_at test_collaborators (test_stretched_mem 0) (test_stretched_mem 1)
                   test_transf)"
  have "fst (update_at test_collaborators (test_stretched_mem 0) (test_stretched_mem 1)
               test_transf) = 0"
    using test_stretched_chord by (simp add: update_at_status)
  then have u: "update test_collaborators test_stretched_mem test_transf = Some (0, ?s)"
    using update_bound [OF test_bound, of test_collaborators test_stretched_mem]
    by (simp add: prod_eq_iff)
  have k: "inx test_collaborators \<noteq> jnx test_collaborators"
    by (simp add: test_collaborators_def)
  have v: "inx test_collaborators = 0" "jnx test_collaborators = 6" "L test_transf = 1"
    by (simp_all add: test_collaborators_def test_transf_def)
  show ?thesis
    using update_axial_components [OF test_bound u k] u k test_bound v test_stretched_chord
    by simp
qed

subsection \<open>Rotation increments\<close>

text \<open>
  C2, as stated for every call, fails on a call that returns \<open>-2\<close>: the source returns
  at the zero deformed length before it computes the increments. With node 1 displaced
  onto node 0 and rotated by \<open>1/4\<close>, the increment of node 1 has norm \<open>1/4\<close>, yet the
  update composes nothing onto \<open>Q_pres[1]\<close> and does not record the trial rotation in
  \<open>alphaJ\<close>.
\<close>

theorem update_skips_increment_on_failure:
  "norm3 test_collaborators
     (trial_minus_last_seen (TrialDisp (test_collapsed_rotated_mem 1)) (alphaJ test_transf))
     = 1 / 4
   \<and> (\<exists>s'. update test_collaborators test_collapsed_rotated_mem test_transf = Some (- 2, s')
          \<and> Q_pres s' = Q_pres test_transf
          \<and> Q_pres s' 1 \<noteq>
              hamilton test_collaborators
                (from_vector test_collaborators
                   (trial_minus_last_seen (TrialDisp (test_collapsed_rotated_mem 1))
                      (alphaJ test_transf)))
                (Q_pres test_transf 1)
          \<and> alphaJ s' = alphaJ test_transf
          \<and> alphaJ s' 2 \<noteq> TrialDisp (test_collapsed_rotated_mem 1) 5)"
proof -
  let ?m = test_collapsed_rotated_mem
  let ?r = "update_at test_collaborators (?m 0) (?m 1) test_transf"
  let ?d = "trial_minus_last_seen (TrialDisp (?m 1)) (alphaJ test_transf)"
  have d: "?d = zero_vec(2 := 1 / 4)"
    by (rule ext)
      (simp add: trial_minus_last_seen_def test_collapsed_rotated_mem_def test_mem_def
        test_transf_def test_raw_def zero_vec_def)
  have "sqrt ((1 / 4)\<^sup>2) = (1 / 4 :: real)"
    by (simp add: real_sqrt_abs)
  then have n: "norm3 test_collaborators ?d = 1 / 4"
    unfolding d by (simp add: test_collaborators_def euclid_norm3_def zero_vec_def)
  have "relative_translation (dX test_transf) (TrialDisp (?m 0)) (TrialDisp (?m 1)) = zero_vec"
    by (rule ext)
      (simp add: relative_translation_eq test_transf_def test_collapsed_rotated_mem_def
        test_mem_def zero_vec_def test_raw_def)
  then have f: "fst ?r = - 2"
    by (simp add: update_at_status test_collaborators_def euclid_norm3_def zero_vec_def)
  then have u: "update test_collaborators ?m test_transf = Some (- 2, snd ?r)"
    using update_bound [OF test_bound, of test_collaborators ?m] by (simp add: prod_eq_iff)
  have q: "Q_pres (snd ?r) = Q_pres test_transf" and a: "alphaJ (snd ?r) = alphaJ test_transf"
    using f by (simp_all add: update_at_Q_pres update_at_alpha)
  have "hamilton test_collaborators (from_vector test_collaborators ?d) (Q_pres test_transf 1) 0 1
          = - (1 / 4)"
    unfolding d
    by (simp add: test_collaborators_def mat3_mult_def identity_mat_def skew_def zero_vec_def
        test_transf_def test_raw_def)
  moreover have "Q_pres test_transf 1 0 1 = 0"
    by (simp add: test_transf_def test_raw_def identity_mat_def)
  ultimately have h: "Q_pres test_transf 1 \<noteq>
      hamilton test_collaborators (from_vector test_collaborators ?d) (Q_pres test_transf 1)"
    by (metis less_irrefl neg_less_0_iff_less zero_less_divide_1_iff zero_less_numeral)
  have t: "alphaJ test_transf 2 \<noteq> TrialDisp (?m 1) 5"
    by (simp add: test_transf_def test_raw_def zero_vec_def test_collapsed_rotated_mem_def)
  show ?thesis
    using n u q a h t by simp
qed

text \<open>
  C2, amended. The status of \<^verbatim>\<open>update()\<close> is \<open>-2\<close> when the norm of the deformed chord is
  zero and \<open>0\<close> otherwise. In a call that returns \<open>0\<close> the rotation increment of a node is
  its trial rotation minus the value last seen, kept in \<open>alphaI\<close> or \<open>alphaJ\<close>, which the
  update then overwrites with the trial rotation; the increment is composed on the left
  of the node's present versor, \<open>Q_pres[i] = from_vector(increment) * Q_pres[i]\<close>, and only
  when its norm is not zero. In a call that returns \<open>-2\<close> the versors and the values last
  seen are what they were.
\<close>

theorem update_left_composes_increment:
  assumes "nodes s 0 = Some pI" and "nodes s (nn - 1) = Some pJ"
  shows "\<exists>rc s'. update K mem s = Some (rc, s')
     \<and> rc = (if norm3 K (relative_translation (dX s) (TrialDisp (mem pI)) (TrialDisp (mem pJ))) = 0
             then - 2 else 0)
     \<and> Q_pres s' =
         (if rc = 0
          then (Q_pres s)
            (0 := (if norm3 K (trial_minus_last_seen (TrialDisp (mem pI)) (alphaI s)) \<noteq> 0
                   then hamilton K
                          (from_vector K (trial_minus_last_seen (TrialDisp (mem pI)) (alphaI s)))
                          (Q_pres s 0)
                   else Q_pres s 0),
             1 := (if norm3 K (trial_minus_last_seen (TrialDisp (mem pJ)) (alphaJ s)) \<noteq> 0
                   then hamilton K
                          (from_vector K (trial_minus_last_seen (TrialDisp (mem pJ)) (alphaJ s)))
                          (Q_pres s 1)
                   else Q_pres s 1))
          else Q_pres s)
     \<and> alphaI s' =
         (if rc = 0
          then (alphaI s)(0 := TrialDisp (mem pI) 3, 1 := TrialDisp (mem pI) 4,
                          2 := TrialDisp (mem pI) 5)
          else alphaI s)
     \<and> alphaJ s' =
         (if rc = 0
          then (alphaJ s)(0 := TrialDisp (mem pJ) 3, 1 := TrialDisp (mem pJ) 4,
                          2 := TrialDisp (mem pJ) 5)
          else alphaJ s)"
proof -
  let ?r = "update_at K (mem pI) (mem pJ) s"
  have "update K mem s = Some (fst ?r, snd ?r)"
    using assms by (simp add: update_bound)
  then show ?thesis
    using update_at_Q_pres [of K "mem pI" "mem pJ" s] update_at_alpha [of K "mem pI" "mem pJ" s]
      update_at_status [of K "mem pI" "mem pJ" s]
    by blast
qed

text \<open>
  In the instance node 0 has not rotated and node 1 has a trial rotation of \<open>1/100\<close>: only
  the versor of node 1 is composed.
\<close>

lemma test_increments:
  "norm3 test_collaborators (trial_minus_last_seen (TrialDisp (test_mem 0)) (alphaI test_transf)) = 0"
  "norm3 test_collaborators (trial_minus_last_seen (TrialDisp (test_mem 1)) (alphaJ test_transf)) = 1 / 100"
  by (simp_all add: trial_minus_last_seen_def test_collaborators_def test_transf_def
        test_mem_def euclid_norm3_def zero_vec_def test_raw_def)

theorem update_left_composes_increment_witness:
  "nodes test_transf 0 = Some 0 \<and> nodes test_transf (nn - 1) = Some 1
   \<and> (\<exists>s'. update test_collaborators test_mem test_transf = Some (0, s')
          \<and> Q_pres s' 0 = Q_pres test_transf 0
          \<and> Q_pres s' 1 =
              hamilton test_collaborators
                (from_vector test_collaborators
                   (trial_minus_last_seen (TrialDisp (test_mem 1)) (alphaJ test_transf)))
                (Q_pres test_transf 1)
          \<and> alphaJ s' 2 = 1 / 100)"
proof -
  have u: "update test_collaborators test_mem test_transf
             = Some (0, snd (update_at test_collaborators (test_mem 0) (test_mem 1) test_transf))"
    using test_update_ok by (simp add: update_bound [OF test_bound] prod_eq_iff)
  have d: "TrialDisp (test_mem 1) 5 = 1 / 100"
    by (simp add: test_mem_def)
  show ?thesis
    using update_left_composes_increment [OF test_bound, of test_collaborators test_mem]
      u d test_increments test_bound
    by auto
qed

subsection \<open>The status of the reverting operations\<close>

lemma upt_1_nn: "[Suc 0..<nn] = [Suc 0]"
  by (simp add: upt_rec nn_def)

lemma revert_nodes:
  "nodes (revertToStart_reset K s) = nodes s"
  "nodes (revertToLastCommit_restore nI nJ s) = nodes s"
  by (simp_all add: revertToStart_reset_def revertToLastCommit_restore_def Let_def upt_1_nn upt_0_3)

text \<open>
  C10. \<^verbatim>\<open>revertToStart()\<close> and \<^verbatim>\<open>revertToLastCommit()\<close> return \<open>0\<close> whatever the status
  \<open>rc\<close> of the update they end with, and leave the transformation as that update left it.
\<close>

theorem revert_always_returns_zero:
  assumes "nodes s 0 = Some pI" and "nodes s (nn - 1) = Some pJ"
  shows "(\<exists>rc s'. update K mem (revertToStart_reset K s) = Some (rc, s')
            \<and> revertToStart K mem s = Some (0, s'))
       \<and> (\<exists>rc s'. update K mem (revertToLastCommit_restore (mem pI) (mem pJ) s) = Some (rc, s')
            \<and> revertToLastCommit K mem s = Some (0, s'))"
proof -
  have j: "nodes s 1 = Some pJ"
    using assms(2) by (simp add: nn_def)
  obtain rc1 s1 where
    u1: "update K mem (revertToStart_reset K s) = Some (rc1, s1)"
    using update_bound [of "revertToStart_reset K s" pI pJ K mem] assms
    by (cases "update_at K (mem pI) (mem pJ) (revertToStart_reset K s)") (simp add: revert_nodes)
  obtain rc2 s2 where
    u2: "update K mem (revertToLastCommit_restore (mem pI) (mem pJ) s) = Some (rc2, s2)"
    using update_bound [of "revertToLastCommit_restore (mem pI) (mem pJ) s" pI pJ K mem] assms
    by (cases "update_at K (mem pI) (mem pJ) (revertToLastCommit_restore (mem pI) (mem pJ) s)")
      (simp add: revert_nodes)
  have "revertToStart K mem s = Some (0, s1)"
    using u1 by (simp add: revertToStart_def)
  moreover have "revertToLastCommit K mem s = Some (0, s2)"
    using u2 assms(1) j by (simp add: revertToLastCommit_def)
  ultimately show ?thesis
    using u1 u2 by blast
qed

text \<open>With node 1 displaced onto node 0 the inner update returns \<open>-2\<close>; both return \<open>0\<close>.\<close>

lemma test_collapsed_reverts:
  "fst (update_at test_collaborators (test_collapsed_mem 0) (test_collapsed_mem 1)
          (revertToStart_reset test_collaborators test_transf)) = - 2"
  "fst (update_at test_collaborators (test_collapsed_mem 0) (test_collapsed_mem 1)
          (revertToLastCommit_restore (test_collapsed_mem 0) (test_collapsed_mem 1) test_transf)) = - 2"
  by (simp_all add: update_at_status relative_translation_eq revertToStart_reset_def
        revertToLastCommit_restore_def Let_def upt_1_nn upt_0_3
        test_collaborators_def test_transf_def test_collapsed_mem_def test_mem_def
        euclid_norm3_def zero_vec_def test_raw_def)

theorem revert_always_returns_zero_witness:
  "nodes test_transf 0 = Some 0 \<and> nodes test_transf (nn - 1) = Some 1
   \<and> (\<exists>s'. update test_collaborators test_collapsed_mem
              (revertToStart_reset test_collaborators test_transf) = Some (- 2, s')
          \<and> revertToStart test_collaborators test_collapsed_mem test_transf = Some (0, s'))
   \<and> (\<exists>s'. update test_collaborators test_collapsed_mem
              (revertToLastCommit_restore (test_collapsed_mem 0) (test_collapsed_mem 1) test_transf)
              = Some (- 2, s')
          \<and> revertToLastCommit test_collaborators test_collapsed_mem test_transf = Some (0, s'))"
proof -
  let ?mI = "test_collapsed_mem 0" and ?mJ = "test_collapsed_mem 1"
  let ?a = "revertToStart_reset test_collaborators test_transf"
  let ?b = "revertToLastCommit_restore ?mI ?mJ test_transf"
  have b1: "nodes ?a 0 = Some 0" "nodes ?a (nn - 1) = Some 1"
    and b2: "nodes ?b 0 = Some 0" "nodes ?b (nn - 1) = Some 1"
    using test_bound by (simp_all only: revert_nodes)
  have u1: "update test_collaborators test_collapsed_mem ?a
              = Some (- 2, snd (update_at test_collaborators ?mI ?mJ ?a))"
    using test_collapsed_reverts(1) update_bound [OF b1, of test_collaborators test_collapsed_mem]
    by (simp add: prod_eq_iff)
  have u2: "update test_collaborators test_collapsed_mem ?b
              = Some (- 2, snd (update_at test_collaborators ?mI ?mJ ?b))"
    using test_collapsed_reverts(2) update_bound [OF b2, of test_collaborators test_collapsed_mem]
    by (simp add: prod_eq_iff)
  from revert_always_returns_zero [OF test_bound, of test_collaborators test_collapsed_mem]
  obtain rc1 s1 rc2 s2 where
    r: "update test_collaborators test_collapsed_mem ?a = Some (rc1, s1)"
       "revertToStart test_collaborators test_collapsed_mem test_transf = Some (0, s1)"
       "update test_collaborators test_collapsed_mem ?b = Some (rc2, s2)"
       "revertToLastCommit test_collaborators test_collapsed_mem test_transf = Some (0, s2)"
    by blast
  have "rc1 = - 2" "rc2 = - 2"
    using r(1,3) u1 u2 by simp_all
  then show ?thesis
    using r test_bound by blast
qed

subsection \<open>The failures of initialize\<close>

lemma upt_0_nn: "[0..<nn] = [0, Suc 0]"
  by (simp add: upt_rec nn_def)

lemma nn_minus_1: "nn - Suc 0 = Suc 0"
  by (simp add: nn_def)

lemma bind_nodes_nn:
  "bind_nodes [0..<nn] new_nodes s =
     (if new_nodes 0 = None then (False, s\<lparr>nodes := (nodes s)(0 := None)\<rparr>)
      else if new_nodes 1 = None
        then (False, s\<lparr>nodes := (nodes s)(0 := new_nodes 0, 1 := None)\<rparr>)
        else (True, s\<lparr>nodes := (nodes s)(0 := new_nodes 0, 1 := new_nodes 1)\<rparr>))"
  by (simp add: upt_0_nn Let_def)

lemma initialize_at_status:
  "fst (initialize_at K nI nJ s) =
     (if norm3 K (vsub (Crds nJ) (Crds nI)) = 0 then - 2
      else fst (Orient K (vsub (Crds nJ) (Crds nI)) (vz s) (R0 s)))"
  by (simp add: initialize_at_def Let_def split: prod.splits)

lemma initialize_at_L:
  "L (snd (initialize_at K nI nJ s)) = norm3 K (vsub (Crds nJ) (Crds nI))"
  by (simp add: initialize_at_def Let_def commit_def upt_0_nn split: prod.splits)

lemma initialize_bound:
  assumes "new_nodes 0 = Some pI" and "new_nodes 1 = Some pJ"
  shows "initialize K mem new_nodes s =
           Some (initialize_at K (mem pI) (mem pJ)
                   (s\<lparr>nodes := (nodes s)(0 := new_nodes 0, 1 := new_nodes 1)\<rparr>))"
  using assms by (simp add: initialize_def bind_nodes_nn nn_minus_1)

text \<open>
  C7. \<^verbatim>\<open>initialize\<close> returns \<open>-1\<close> when one of the two node pointers is null, and \<open>-2\<close>
  when both are set and the norm of the difference of the node coordinates, the
  reference length \<open>L\<close>, is zero. Otherwise its status is that of \<^verbatim>\<open>Orient\<close>. It returns a
  status for every argument: no path reads through a null pointer.
\<close>

theorem initialize_failures:
  "(new_nodes 0 = None \<or> new_nodes 1 = None
      \<longrightarrow> (\<exists>s'. initialize K mem new_nodes s = Some (- 1, s')))
   \<and> (new_nodes 0 = Some pI \<and> new_nodes 1 = Some pJ
        \<and> norm3 K (vsub (Crds (mem pJ)) (Crds (mem pI))) = 0
      \<longrightarrow> (\<exists>s'. initialize K mem new_nodes s = Some (- 2, s') \<and> L s' = 0))
   \<and> (new_nodes 0 = Some pI \<and> new_nodes 1 = Some pJ
        \<and> norm3 K (vsub (Crds (mem pJ)) (Crds (mem pI))) \<noteq> 0
      \<longrightarrow> (\<exists>s'. initialize K mem new_nodes s =
                  Some (fst (Orient K (vsub (Crds (mem pJ)) (Crds (mem pI))) (vz s) (R0 s)), s')))
   \<and> (\<exists>rc s'. initialize K mem new_nodes s = Some (rc, s'))"
proof (intro conjI impI)
  assume "new_nodes 0 = None \<or> new_nodes 1 = None"
  then show "\<exists>s'. initialize K mem new_nodes s = Some (- 1, s')"
    by (auto simp add: initialize_def bind_nodes_nn)
next
  let ?s1 = "s\<lparr>nodes := (nodes s)(0 := new_nodes 0, 1 := new_nodes 1)\<rparr>"
  let ?r = "initialize_at K (mem pI) (mem pJ) ?s1"
  assume a: "new_nodes 0 = Some pI \<and> new_nodes 1 = Some pJ
        \<and> norm3 K (vsub (Crds (mem pJ)) (Crds (mem pI))) = 0"
  then have "initialize K mem new_nodes s = Some (fst ?r, snd ?r)"
    by (simp add: initialize_bound)
  moreover have "fst ?r = - 2" "L (snd ?r) = 0"
    using a by (simp_all add: initialize_at_status initialize_at_L)
  ultimately show "\<exists>s'. initialize K mem new_nodes s = Some (- 2, s') \<and> L s' = 0"
    by (simp add: prod_eq_iff)
next
  let ?s1 = "s\<lparr>nodes := (nodes s)(0 := new_nodes 0, 1 := new_nodes 1)\<rparr>"
  let ?r = "initialize_at K (mem pI) (mem pJ) ?s1"
  assume a: "new_nodes 0 = Some pI \<and> new_nodes 1 = Some pJ
        \<and> norm3 K (vsub (Crds (mem pJ)) (Crds (mem pI))) \<noteq> 0"
  then have "initialize K mem new_nodes s = Some (fst ?r, snd ?r)"
    by (simp add: initialize_bound)
  moreover have "fst ?r = fst (Orient K (vsub (Crds (mem pJ)) (Crds (mem pI))) (vz s) (R0 s))"
    using a by (simp add: initialize_at_status)
  ultimately show "\<exists>s'. initialize K mem new_nodes s =
      Some (fst (Orient K (vsub (Crds (mem pJ)) (Crds (mem pI))) (vz s) (R0 s)), s')"
    by (simp add: prod_eq_iff)
next
  show "\<exists>rc s'. initialize K mem new_nodes s = Some (rc, s')"
    by (cases "new_nodes 0"; cases "new_nodes 1")
      (auto simp add: initialize_def bind_nodes_nn nn_minus_1)
qed

theorem initialize_failures_witness:
  "(test_one_node 0 = None \<or> test_one_node 1 = None)
   \<and> (\<exists>s'. initialize test_collaborators test_mem test_one_node test_raw = Some (- 1, s'))
   \<and> test_same_node 0 = Some 0 \<and> test_same_node 1 = Some 0
   \<and> norm3 test_collaborators (vsub (Crds (test_mem 0)) (Crds (test_mem 0))) = 0
   \<and> (\<exists>s'. initialize test_collaborators test_mem test_same_node test_raw = Some (- 2, s')
          \<and> L s' = 0)
   \<and> test_nodes 0 = Some 0 \<and> test_nodes 1 = Some 1
   \<and> norm3 test_collaborators (vsub (Crds (test_mem 1)) (Crds (test_mem 0))) \<noteq> 0
   \<and> (\<exists>s'. initialize test_collaborators test_mem test_nodes test_raw = Some (0, s'))"
proof -
  have h1: "test_one_node 0 = None \<or> test_one_node 1 = None"
    by (simp add: test_one_node_def)
  have h2: "test_same_node 0 = Some 0 \<and> test_same_node 1 = Some 0
      \<and> norm3 test_collaborators (vsub (Crds (test_mem 0)) (Crds (test_mem 0))) = 0"
    by (simp add: test_same_node_def test_collaborators_def vsub_def euclid_norm3_def)
  have h3: "test_nodes 0 = Some 0 \<and> test_nodes 1 = Some 1
      \<and> norm3 test_collaborators (vsub (Crds (test_mem 1)) (Crds (test_mem 0))) \<noteq> 0"
    by (simp add: test_nodes_def test_collaborators_def vsub_def euclid_norm3_def test_mem_def
        zero_vec_def)
  have o: "fst (Orient test_collaborators (vsub (Crds (test_mem 1)) (Crds (test_mem 0)))
             (vz test_raw) (R0 test_raw)) = 0"
    by (simp add: test_collaborators_def)
  show ?thesis
    using initialize_failures [where new_nodes = test_one_node and K = test_collaborators
          and mem = test_mem and s = test_raw and pI = 0 and pJ = 0]
      initialize_failures [where new_nodes = test_same_node and K = test_collaborators
          and mem = test_mem and s = test_raw and pI = 0 and pJ = 0]
      initialize_failures [where new_nodes = test_nodes and K = test_collaborators
          and mem = test_mem and s = test_raw and pI = 0 and pJ = 1]
      h1 h2 h3 o
    by auto
qed

subsection \<open>commit, then revertToLastCommit\<close>

lemma local_deformation_twice:
  "local_deformation K e Q d (local_deformation K e Q d u) = local_deformation K e Q d u"
  by (rule ext) (simp add: local_deformation_def upt_0_3)

lemma update_at_crs:
  "crs (snd (update_at K nI nJ s)) =
     (if fst (update_at K nI nJ s) = 0
      then isometry_update K (crs s)
             (MatrixFromVersor K (Q_pres (snd (update_at K nI nJ s)) 0))
             (MatrixFromVersor K (Q_pres (snd (update_at K nI nJ s)) 1))
             (relative_translation (dX s) (TrialDisp nI) (TrialDisp nJ)) [nI, nJ]
      else crs s)"
  by (simp add: update_at_def Let_def split: prod.splits)

lemma update_at_ul:
  "ul (snd (update_at K nI nJ s)) =
     (if fst (update_at K nI nJ s) = 0
      then local_deformation K (isometry_getRotation K (crs (snd (update_at K nI nJ s))))
             (Q_pres (snd (update_at K nI nJ s)))
             (Ln (snd (update_at K nI nJ s)) - L s) (ul s)
      else ul s)"
  by (simp add: update_at_def Let_def local_deformation_def split: prod.splits)

lemma commit_fields:
  "ul (snd (commit s)) = ul s"
  "ulcommit (snd (commit s)) = ul s"
  "Q_pres (snd (commit s)) = Q_pres s"
  "Q_past (snd (commit s)) = (Q_past s)(0 := Q_pres s 0, 1 := Q_pres s 1)"
  "nodes (snd (commit s)) = nodes s"
  "dX (snd (commit s)) = dX s"
  "L (snd (commit s)) = L s"
  "alphaI (snd (commit s)) = alphaI s"
  "alphaJ (snd (commit s)) = alphaJ s"
  "crs (snd (commit s)) = crs s"
  by (simp_all add: commit_def Let_def)

lemma restore_fields:
  "ul (revertToLastCommit_restore nI nJ s) = ulcommit s"
  "Q_pres (revertToLastCommit_restore nI nJ s) = (Q_pres s)(0 := Q_past s 0, 1 := Q_past s 1)"
  "alphaI (revertToLastCommit_restore nI nJ s) =
     (alphaI s)(0 := TrialDisp nI 3, 1 := TrialDisp nI 4, 2 := TrialDisp nI 5)"
  "alphaJ (revertToLastCommit_restore nI nJ s) =
     (alphaJ s)(0 := TrialDisp nJ 3, 1 := TrialDisp nJ 4, 2 := TrialDisp nJ 5)"
  "dX (revertToLastCommit_restore nI nJ s) = dX s"
  "L (revertToLastCommit_restore nI nJ s) = L s"
  "crs (revertToLastCommit_restore nI nJ s) = crs s"
  by (simp_all add: revertToLastCommit_restore_def Let_def upt_0_3)

lemma no_increment:
  "trial_minus_last_seen d (a(0 := d 3, 1 := d 4, 2 := d 5)) = zero_vec"
  by (rule ext) (simp add: trial_minus_last_seen_def zero_vec_def)

text \<open>
  C5. Let \<open>s\<close> be the transformation as an \<^verbatim>\<open>update()\<close> left it, and let the nodes be as
  that update read them. Then \<^verbatim>\<open>commit(); revertToLastCommit()\<close> returns \<open>0\<close> and leaves
  \<open>ul\<close> and \<open>Q_pres\<close> as they are in \<open>s\<close>. Two properties of code outside this file are
  assumed: the norm of the zero vector is zero, and updating the isometry a second time
  with the same arguments does not change the rotation it returns (the spec asks of the
  isometry that its update "must be idempotent given the same inputs").
\<close>

theorem commit_revert_unchanged:
  assumes last: "update K mem s0 = Some (rc, s)"
    and norm0: "norm3 K zero_vec = 0"
    and idem: "\<forall>c a b d ns.
        isometry_getRotation K (isometry_update K (isometry_update K c a b d ns) a b d ns)
          = isometry_getRotation K (isometry_update K c a b d ns)"
  shows "\<exists>s'. revertToLastCommit K mem (snd (commit s)) = Some (0, s')
           \<and> ul s' = ul s \<and> Q_pres s' = Q_pres s"
proof -
  from last obtain pI pJ where
    b: "nodes s0 0 = Some pI" "nodes s0 (nn - 1) = Some pJ"
    and u: "update_at K (mem pI) (mem pJ) s0 = (rc, s)"
    by (auto simp add: update_def split: option.splits)
  let ?nI = "mem pI" and ?nJ = "mem pJ"
  let ?r = "revertToLastCommit_restore ?nI ?nJ (snd (commit s))"
  let ?t = "update_at K ?nI ?nJ ?r"
  have s: "s = snd (update_at K ?nI ?nJ s0)" and rc: "rc = fst (update_at K ?nI ?nJ s0)"
    using u by simp_all
  have ns: "nodes s = nodes s0"
    by (simp add: s update_at_frame)
  have bc: "nodes (snd (commit s)) 0 = Some pI" "nodes (snd (commit s)) 1 = Some pJ"
    using b by (simp_all add: commit_fields ns nn_def)
  have br: "nodes ?r 0 = Some pI" "nodes ?r (nn - 1) = Some pJ"
    using b by (simp_all add: revert_nodes commit_fields ns)
  have rev: "revertToLastCommit K mem (snd (commit s)) = Some (0, snd ?t)"
    using bc update_bound [OF br, of K mem]
    by (simp add: revertToLastCommit_def split: prod.splits)
  have r_ul: "ul ?r = ul s" and r_Q: "Q_pres ?r = Q_pres s"
    and r_dX: "dX ?r = dX s0" and r_L: "L ?r = L s0" and r_crs: "crs ?r = crs s"
    by (simp_all add: restore_fields commit_fields fun_eq_iff s update_at_frame)
  have st: "fst ?t = rc"
    by (simp add: update_at_status r_dX rc)
  have r_aI: "trial_minus_last_seen (TrialDisp ?nI) (alphaI ?r) = zero_vec"
    and r_aJ: "trial_minus_last_seen (TrialDisp ?nJ) (alphaJ ?r) = zero_vec"
    by (simp_all only: restore_fields no_increment)
  have Q: "Q_pres (snd ?t) = Q_pres s"
    by (simp add: update_at_Q_pres [of K ?nI ?nJ ?r] r_aI r_aJ norm0 r_Q)
  have "ul (snd ?t) = ul s"
  proof (cases "rc = 0")
    case False
    then show ?thesis
      using st by (simp add: update_at_ul [of K ?nI ?nJ ?r] r_ul)
  next
    case True
    let ?dx = "relative_translation (dX s0) (TrialDisp ?nI) (TrialDisp ?nJ)"
    let ?A = "MatrixFromVersor K (Q_pres s 0)" and ?B = "MatrixFromVersor K (Q_pres s 1)"
    have ok: "fst (update_at K ?nI ?nJ s0) = 0" "fst ?t = 0"
      using True rc st by simp_all
    have c_s: "crs s = isometry_update K (crs s0) ?A ?B ?dx [?nI, ?nJ]"
      using ok(1) update_at_crs [of K ?nI ?nJ s0] by (simp add: s [symmetric])
    have c_t: "crs (snd ?t) = isometry_update K (crs s) ?A ?B ?dx [?nI, ?nJ]"
      using ok(2) update_at_crs [of K ?nI ?nJ ?r] by (simp add: Q r_crs r_dX)
    have e: "isometry_getRotation K (crs (snd ?t)) = isometry_getRotation K (crs s)"
      using idem by (simp add: c_t) (simp add: c_s)
    have "Ln (snd ?t) = norm3 K ?dx"
      by (simp add: update_at_Ln r_dX)
    moreover have "Ln s = norm3 K ?dx"
      by (subst s) (rule update_at_Ln)
    ultimately have Ln: "Ln (snd ?t) = Ln s"
      by simp
    define E where "E = local_deformation K (isometry_getRotation K (crs s)) (Q_pres s)
                         (Ln s - L s0)"
    have ul_s: "ul s = E (ul s0)"
      using ok(1) update_at_ul [of K ?nI ?nJ s0] by (simp add: s [symmetric] E_def)
    have "ul (snd ?t) = E (ul s)"
      using ok(2) update_at_ul [of K ?nI ?nJ ?r] by (simp add: e Q Ln r_L r_ul E_def)
    also have "\<dots> = E (E (ul s0))"
      by (rule arg_cong [OF ul_s])
    also have "\<dots> = E (ul s0)"
      unfolding E_def by (rule local_deformation_twice)
    also have "\<dots> = ul s"
      by (rule ul_s [symmetric])
    finally show ?thesis .
  qed
  with rev Q show ?thesis
    by blast
qed

theorem commit_revert_unchanged_witness:
  "update test_collaborators test_mem test_transf
     = Some (0, snd (update_at test_collaborators (test_mem 0) (test_mem 1) test_transf))
   \<and> norm3 test_collaborators zero_vec = 0
   \<and> (\<forall>c a b d ns.
        isometry_getRotation test_collaborators
          (isometry_update test_collaborators (isometry_update test_collaborators c a b d ns)
             a b d ns)
        = isometry_getRotation test_collaborators (isometry_update test_collaborators c a b d ns))
   \<and> (\<exists>s'. revertToLastCommit test_collaborators test_mem
              (snd (commit (snd (update_at test_collaborators (test_mem 0) (test_mem 1)
                                   test_transf)))) = Some (0, s')
          \<and> ul s' = ul (snd (update_at test_collaborators (test_mem 0) (test_mem 1) test_transf))
          \<and> Q_pres s'
              = Q_pres (snd (update_at test_collaborators (test_mem 0) (test_mem 1) test_transf)))"
proof -
  have u: "update test_collaborators test_mem test_transf
             = Some (0, snd (update_at test_collaborators (test_mem 0) (test_mem 1) test_transf))"
    using test_update_ok by (simp add: update_bound [OF test_bound] prod_eq_iff)
  have n: "norm3 test_collaborators zero_vec = 0"
    by (simp add: test_collaborators_def euclid_norm3_def zero_vec_def)
  have i: "\<forall>c a b d ns.
        isometry_getRotation test_collaborators
          (isometry_update test_collaborators (isometry_update test_collaborators c a b d ns)
             a b d ns)
        = isometry_getRotation test_collaborators (isometry_update test_collaborators c a b d ns)"
    by (simp add: test_collaborators_def)
  show ?thesis
    using commit_revert_unchanged [OF u n i] u n i by blast
qed

subsection \<open>push of a local force\<close>

lemma fold_add_block:
  "fold (\<lambda>j g. g(a + j := g (a + j) + f j)) [0..<n] g0 =
     (\<lambda>c. if a \<le> c \<and> c < a + n then g0 c + f (c - a) else g0 c)"
  by (induction n) (auto simp add: fun_eq_iff)

lemma assemble_eq:
  "assemble a v scale pg =
     (\<lambda>c. if a \<le> c \<and> c < a + 6 then pg c + v (c - a) * scale else pg c)"
  unfolding assemble_def by (rule fold_add_block)

lemma fold_add_row:
  "fold (\<lambda>j g. g(j := g j + f j)) [0..<n] g0 = (\<lambda>c. if c < n then g0 c + f c else g0 c)"
  by (induction n) (auto simp add: fun_eq_iff)

lemma fold_rows:
  "fold (\<lambda>i pab. (\<lambda>c. if c < n then pab c + F i c else pab c)) [0..<m] zero_vec =
     (\<lambda>c. if c < n then (\<Sum>i<m. F i c) else 0)"
  by (induction m) (auto simp add: fun_eq_iff zero_vec_def)

lemma push_block_eq:
  "push_block Tm pa a b =
     (\<lambda>j. if j < 6 then (\<Sum>i<6. Tm (a * 6 + i) (b * 6 + j) * pa i) else 0)"
  unfolding push_block_def fold_add_row by (rule fold_rows)

lemma push_node:
  "fold (\<lambda>b pg. assemble (b * 6) (push_block Tm pa a b) 1 pg) [0..<2] pg =
     (\<lambda>c. if c < 12 then pg c + (\<Sum>i<6. Tm (a * 6 + i) c * pa i) else pg c)"
  by (rule ext) (simp add: upt_0_2 assemble_eq push_block_eq)

lemma sum_two_blocks:
  fixes f :: "nat \<Rightarrow> real"
  shows "(\<Sum>r<12. f r) = (\<Sum>i<6. f i) + (\<Sum>i<6. f (6 + i))"
  by (simp add: eval_nat_numeral)

text \<open>
  C6. \<^verbatim>\<open>push\<close> of a local force \<open>pl\<close> returns \<open>0\<close>, leaves in \<open>pl\<close> the product of the
  transpose of \<open>T\<close> with \<open>pl\<close>, component \<open>c\<close> being the sum over the twelve rows \<open>r\<close> of
  \<open>T(r, c) * pl(r)\<close>, and leaves the transformation as it was. (\<open>push_node\<close> is the
  assembly of the two blocks of six for one node.)
\<close>

theorem push_is_transpose_product:
  "push s pl = (0, (\<lambda>c. if c < 12 then (\<Sum>r<12. T s r c * pl r) else 0), s)"
proof -
  have "fold (\<lambda>a pg.
           (let pa = zero_vec(0 := pl (a * ndf + 0), 1 := pl (a * ndf + 1),
                              2 := pl (a * ndf + 2), 3 := pl (a * ndf + 3),
                              4 := pl (a * ndf + 4), 5 := pl (a * ndf + 5))
            in fold (\<lambda>b pg. assemble (b * 6) (push_block (T s) pa a b) 1 pg) [0..<2] pg))
          [0..<nn] zero_vec
        = (\<lambda>c. if c < 12 then (\<Sum>r<12. T s r c * pl r) else 0)" (is "?pg = ?rhs")
  proof (rule ext)
    fix c
    have "?pg c = (if c < 12
        then (\<Sum>i<6. T s i c * pl i) + (\<Sum>i<6. T s (6 + i) c * pl (6 + i)) else 0)"
      by (simp add: upt_0_nn Let_def push_node ndf_def)
        (simp add: zero_vec_def eval_nat_numeral)
    then show "?pg c = ?rhs c"
      by (simp add: sum_two_blocks [of "\<lambda>r. T s r c * pl r"])
  qed
  then show ?thesis
    by (simp add: push_def)
qed

subsection \<open>getCopy\<close>

text \<open>What \<^verbatim>\<open>getCopy()\<close> assigns from the original, and what the constructor leaves.\<close>

lemma getCopy_copied:
  "tag (getCopy K raw s) = tag s"
  "vz (getCopy K raw s) = vz s"
  "offsets (getCopy K raw s) = offsets s"
  "nodes (getCopy K raw s) = (nodes raw)(0 := nodes s 0, 1 := nodes s 1)"
  "xAxis (getCopy K raw s) = xAxis s"
  "L (getCopy K raw s) = L s"
  "Ln (getCopy K raw s) = Ln s"
  "R0 (getCopy K raw s) = R0 s"
  "Q_pres (getCopy K raw s) = (Q_pres raw)(0 := Q_pres s 0, 1 := Q_pres s 1)"
  "Q_past (getCopy K raw s) = (Q_past raw)(0 := Q_past s 0, 1 := Q_past s 1)"
  "ul (getCopy K raw s) = ul s"
  "ulcommit (getCopy K raw s) = ulcommit s"
  by (simp_all add: getCopy_def SouzaFrameTransf_new_def Let_def split: option.splits)

lemma getCopy_not_copied:
  "alphaI (getCopy K raw s) = zero_vec"
  "alphaJ (getCopy K raw s) = zero_vec"
  "dX (getCopy K raw s) = dX raw"
  "ulpr (getCopy K raw s) = ulpr raw"
  "vr (getCopy K raw s) = vr raw"
  "T (getCopy K raw s) = T raw"
  "crs (getCopy K raw s) = isometry_new K (vz s)"
  "initialDispChecked (getCopy K raw s) = False"
  by (simp_all add: getCopy_def SouzaFrameTransf_new_def Let_def split: option.splits)

text \<open>
  C8. The copy does not hold all of the original's rotation and displacement state:
  \<^verbatim>\<open>getCopy()\<close> assigns neither \<open>alphaI\<close>, \<open>alphaJ\<close> nor \<open>dX\<close>. After an update that saw a
  trial rotation of \<open>1/100\<close> at node 1, the original's \<open>alphaJ\<close> holds it and its \<open>dX\<close> is
  the reference chord \<open>(1, 0, 0)\<close>; the copy's \<open>alphaJ\<close> is zero and its \<open>dX\<close> is what
  default initialisation left, while its versors and \<open>L\<close> are the original's.
\<close>

theorem getCopy_drops_trackers_and_chord:
  "alphaJ (snd (update_at test_collaborators (test_mem 0) (test_mem 1) test_transf)) 2 = 1 / 100
   \<and> alphaJ (getCopy test_collaborators test_raw
               (snd (update_at test_collaborators (test_mem 0) (test_mem 1) test_transf))) 2 = 0
   \<and> dX (snd (update_at test_collaborators (test_mem 0) (test_mem 1) test_transf)) 0 = 1
   \<and> dX (getCopy test_collaborators test_raw
            (snd (update_at test_collaborators (test_mem 0) (test_mem 1) test_transf))) 0 = 0"
proof -
  have "alphaJ (snd (update_at test_collaborators (test_mem 0) (test_mem 1) test_transf)) 2
          = TrialDisp (test_mem 1) 5"
    using test_update_ok by (simp add: update_at_alpha)
  moreover have "TrialDisp (test_mem 1) 5 = 1 / 100"
    by (simp add: test_mem_def)
  moreover have "dX test_transf 0 = 1" "dX test_raw 0 = 0"
    by (simp_all add: test_transf_def test_raw_def zero_vec_def)
  ultimately show ?thesis
    by (simp add: getCopy_not_copied update_at_frame zero_vec_def)
qed

subsection \<open>Sensitivity methods\<close>

text \<open>
  C9, as stated, fails at \<^verbatim>\<open>getLengthGrad()\<close>: between nodes at the origin and at
  \<open>(1, 0, 0)\<close>, with the first coordinate of node 1 as the parameter, it writes nothing to
  \<^verbatim>\<open>opserr\<close> and returns \<open>1\<close>, the derivative of the length.
\<close>

theorem getLengthGrad_is_implemented:
  "getLengthGrad test_mem test_transf = Some ([], Finite 1)"
  by (simp add: getLengthGrad_def test_transf_def test_nodes_def test_mem_def test_raw_def
      set_sensitivity_def dot3_def vsub_def zero_vec_def upt_0_3)

text \<open>
  C9, amended. \<^verbatim>\<open>getBasicDisplTotalGrad\<close>, \<^verbatim>\<open>getBasicDisplFixedGrad\<close> and
  \<^verbatim>\<open>getGlobalResistingForceShapeSensitivity\<close> write a diagnostic and return the
  one-component vector \<open>dummy\<close>, for every transformation and every argument.
  \<^verbatim>\<open>getLengthGrad\<close> is implemented. It never writes a diagnostic. With both nodes set and
  their sensitivity indices in \<open>0..3\<close> it returns \<open>1/L * dX . (dxj - dxi)\<close> when \<open>L\<close> is not
  zero, and a value that is not a finite number when \<open>L\<close> is zero.
\<close>

theorem sensitivity_methods:
  "fst (getBasicDisplTotalGrad s gradNumber) \<noteq> []
     \<and> snd (getBasicDisplTotalGrad s gradNumber) = dummy
   \<and> fst (getBasicDisplFixedGrad s) \<noteq> []
     \<and> snd (getBasicDisplFixedGrad s) = dummy
   \<and> fst (getGlobalResistingForceShapeSensitivity s pb pzero gradNumber) \<noteq> []
     \<and> snd (getGlobalResistingForceShapeSensitivity s pb pzero gradNumber) = dummy
   \<and> length dummy = 1
   \<and> (case getLengthGrad mem s of None \<Rightarrow> True | Some (out, v) \<Rightarrow> out = [])
   \<and> (nodes s 0 = Some pI \<and> nodes s 1 = Some pJ
        \<and> set_sensitivity zero_vec (CrdsSensitivity (mem pI)) = Some dxi
        \<and> set_sensitivity zero_vec (CrdsSensitivity (mem pJ)) = Some dxj
        \<and> L s \<noteq> 0
      \<longrightarrow> getLengthGrad mem s = Some ([], Finite (1 / L s * dot3 (dX s) (vsub dxj dxi))))
   \<and> (nodes s 0 = Some pI \<and> nodes s 1 = Some pJ
        \<and> set_sensitivity zero_vec (CrdsSensitivity (mem pI)) = Some dxi
        \<and> set_sensitivity zero_vec (CrdsSensitivity (mem pJ)) = Some dxj
        \<and> L s = 0
      \<longrightarrow> getLengthGrad mem s = Some ([], NotFinite))"
  by (simp add: getBasicDisplTotalGrad_def getBasicDisplFixedGrad_def
      getGlobalResistingForceShapeSensitivity_def getLengthGrad_def dummy_def
      split: option.splits)

text \<open>
  The instance, and the transformation that \<open>initialize\<close> leaves when it returns \<open>-2\<close>
  for two pointers to node 0: its \<open>L\<close> is zero.
\<close>

lemma initialize_at_nodes:
  "nodes (snd (initialize_at K nI nJ s)) = nodes s"
  by (simp add: initialize_at_def Let_def commit_def upt_0_nn split: prod.splits)

theorem sensitivity_methods_witness:
  "nodes test_transf 0 = Some 0 \<and> nodes test_transf 1 = Some 1
   \<and> set_sensitivity zero_vec (CrdsSensitivity (test_mem 0)) = Some zero_vec
   \<and> set_sensitivity zero_vec (CrdsSensitivity (test_mem 1)) = Some (zero_vec(0 := 1))
   \<and> L test_transf \<noteq> 0
   \<and> fst (getBasicDisplTotalGrad test_transf 1) \<noteq> []
   \<and> snd (getBasicDisplTotalGrad test_transf 1) = [0]
   \<and> getLengthGrad test_mem test_transf = Some ([], Finite 1)
   \<and> initialize test_collaborators test_mem test_same_node test_raw
       = Some (- 2, snd (initialize_at test_collaborators (test_mem 0) (test_mem 0)
                          (test_raw\<lparr>nodes := (nodes test_raw)
                                       (0 := test_same_node 0, 1 := test_same_node 1)\<rparr>)))
   \<and> L (snd (initialize_at test_collaborators (test_mem 0) (test_mem 0)
               (test_raw\<lparr>nodes := (nodes test_raw)
                            (0 := test_same_node 0, 1 := test_same_node 1)\<rparr>))) = 0
   \<and> getLengthGrad test_mem
        (snd (initialize_at test_collaborators (test_mem 0) (test_mem 0)
                (test_raw\<lparr>nodes := (nodes test_raw)
                             (0 := test_same_node 0, 1 := test_same_node 1)\<rparr>)))
       = Some ([], NotFinite)"
proof -
  let ?z = "snd (initialize_at test_collaborators (test_mem 0) (test_mem 0)
                   (test_raw\<lparr>nodes := (nodes test_raw)
                                (0 := test_same_node 0, 1 := test_same_node 1)\<rparr>))"
  have h: "nodes test_transf 0 = Some 0 \<and> nodes test_transf 1 = Some 1
      \<and> set_sensitivity zero_vec (CrdsSensitivity (test_mem 0)) = Some zero_vec
      \<and> set_sensitivity zero_vec (CrdsSensitivity (test_mem 1)) = Some (zero_vec(0 := 1))
      \<and> L test_transf \<noteq> 0"
    by (simp add: test_transf_def test_nodes_def test_mem_def set_sensitivity_def)
  have v: "1 / L test_transf * dot3 (dX test_transf) (vsub (zero_vec(0 := 1)) zero_vec) = 1"
    by (simp add: test_transf_def test_raw_def dot3_def vsub_def zero_vec_def upt_0_3)
  have n0: "norm3 test_collaborators (vsub (Crds (test_mem 0)) (Crds (test_mem 0))) = 0"
    by (simp add: test_collaborators_def vsub_def euclid_norm3_def)
  have p: "test_same_node 0 = Some 0" "test_same_node 1 = Some 0"
    by (simp_all add: test_same_node_def)
  have i: "initialize test_collaborators test_mem test_same_node test_raw = Some (- 2, ?z)"
    using initialize_bound [OF p, of test_collaborators test_mem test_raw] n0
    by (simp add: prod_eq_iff initialize_at_status)
  have l0: "L ?z = 0"
    using n0 by (simp add: initialize_at_L)
  have z: "nodes ?z 0 = Some 0 \<and> nodes ?z 1 = Some 0
      \<and> set_sensitivity zero_vec (CrdsSensitivity (test_mem 0)) = Some zero_vec
      \<and> set_sensitivity zero_vec (CrdsSensitivity (test_mem 0)) = Some zero_vec
      \<and> L ?z = 0"
    using l0 p by (simp add: initialize_at_nodes test_mem_def set_sensitivity_def)
  note r1 = sensitivity_methods [where s = test_transf and mem = test_mem and pI = 0 and pJ = 1
      and dxi = zero_vec and dxj = "zero_vec(0 := 1)" and gradNumber = 1 and pb = "[]" and pzero = "[]"]
  note r2 = sensitivity_methods [where s = ?z and mem = test_mem and pI = 0 and pJ = 0
      and dxi = zero_vec and dxj = zero_vec and gradNumber = 1 and pb = "[]" and pzero = "[]"]
  have "getLengthGrad test_mem test_transf
          = Some ([], Finite (1 / L test_transf
                                * dot3 (dX test_transf) (vsub (zero_vec(0 := 1)) zero_vec)))"
    using r1 h by blast
  then have g1: "getLengthGrad test_mem test_transf = Some ([], Finite 1)"
    by (simp only: v)
  have g2: "getLengthGrad test_mem ?z = Some ([], NotFinite)"
    using r2 z by blast
  have t: "fst (getBasicDisplTotalGrad test_transf 1) \<noteq> []
      \<and> snd (getBasicDisplTotalGrad test_transf 1) = dummy"
    using r1 by blast
  show ?thesis
    using h g1 g2 t i l0 unfolding dummy_def by blast
qed

end
